theory Spec2Isabelle
  imports Complex_Main
begin

section \<open>JavaScript values\<close>

text \<open>
  Strings are lists of code units; the model covers the code units below 256, one
  \<^typ>\<open>char\<close> each. All the code inspects of a character is whether it is a bracket, a
  decimal digit or white space.

  A number is a finite value or one of the three special doubles. Finite doubles are
  rationals; rounding is not modelled, and no function below does arithmetic on a number
  it was handed, except for the popup's fixed margin.
\<close>

datatype js_number = Finite rat | PosInfinity | NegInfinity | NaN

text \<open>
  The error of the store, as \<open>supabase.rpc\<close> returns it in the field \<open>error\<close>: a plain
  object with four strings, not an instance of \<open>Error\<close>.
\<close>

record PostgrestError =
  pg_message :: string
  pg_details :: string
  pg_hint :: string
  pg_code :: string

text \<open>
  What \<open>throw\<close> can throw: an \<open>Error\<close> instance with its \<open>message\<close>; the error object of
  the store, which line 68 throws as it is; or any other value, carried with the string
  \<open>String(err)\<close> gives for it.
\<close>

datatype thrown = Error_instance string | Postgrest_object PostgrestError | Non_error string

text \<open>
  A value as JSON parsing and property access produce it. An object (arrays included) is
  its own properties together with the outcome of calling its \<open>toString()\<close> method, which
  JavaScript fixes from the object: \<open>[object Object]\<close> for a plain object, the joined
  elements for an array, a \<open>TypeError\<close> when an own property shadows the method.
\<close>

datatype js_value =
    Undefined
  | Null
  | Bool bool
  | Num js_number
  | Str string
  | Obj "(string \<times> js_value) list" "thrown + string"

definition typeof :: "js_value \<Rightarrow> string" where
  "typeof v =
     (case v of
        Undefined \<Rightarrow> ''undefined''
      | Null \<Rightarrow> ''object''
      | Bool _ \<Rightarrow> ''boolean''
      | Num _ \<Rightarrow> ''number''
      | Str _ \<Rightarrow> ''string''
      | Obj _ _ \<Rightarrow> ''object'')"

text \<open>\<open>v?.key\<close>: \<open>undefined\<close> on \<open>null\<close> and \<open>undefined\<close>, the property otherwise. The
  primitives have no own property of the names read here (\<open>message\<close>, \<open>page\<close>). JSON
  parsing keeps the last of two equal keys.\<close>

definition optional_get :: "js_value \<Rightarrow> string \<Rightarrow> js_value" where
  "optional_get v key =
     (case v of
        Obj props _ \<Rightarrow> (case map_of (rev props) key of Some w \<Rightarrow> w | None \<Rightarrow> Undefined)
      | _ \<Rightarrow> Undefined)"

subsection \<open>Decimal digits\<close>

definition is_digit :: "char \<Rightarrow> bool" where
  "is_digit c = (c \<in> set ''0123456789'')"

definition digit_char :: "nat \<Rightarrow> char" where
  "digit_char d = ''0123456789'' ! d"

definition digit_value :: "char \<Rightarrow> nat" where
  "digit_value c = of_char c - 48"

fun decimal :: "nat \<Rightarrow> string" where
  "decimal n = (if n < 10 then [digit_char n] else decimal (n div 10) @ [digit_char (n mod 10)])"

declare decimal.simps [simp del]

text \<open>
  \<open>Number.prototype.toString\<close>, as template literals and \<open>toString()\<close> apply it. An integer
  of magnitude below \<open>2^53\<close> prints as its decimal digits. Every other finite number
  prints the shortest digits that read back as the same double (from \<open>2^53\<close> up these
  are not the digits of the integer); that text is the parameter \<open>repr\<close>.
\<close>

definition number_toString :: "(rat \<Rightarrow> string) \<Rightarrow> js_number \<Rightarrow> string" where
  "number_toString repr n =
     (case n of
        NaN \<Rightarrow> ''NaN''
      | PosInfinity \<Rightarrow> ''Infinity''
      | NegInfinity \<Rightarrow> ''-Infinity''
      | Finite q \<Rightarrow>
          if of_int \<lfloor>q\<rfloor> = q \<and> \<bar>q\<bar> < 2 ^ 53
          then (if q < 0 then ''-'' else '''') @ decimal (nat \<bar>\<lfloor>q\<rfloor>\<bar>)
          else repr q)"

text \<open>\<open>parseInt\<close> on a string of decimal digits, the only strings the code passes to it.
  The value is exact below \<open>2^53\<close>; above, JavaScript rounds to a double that is still
  at least \<open>2^53\<close>, beyond the length of any array, so the exact value is kept.\<close>

definition parseInt :: "string \<Rightarrow> nat" where
  "parseInt ds = foldl (\<lambda>a c. 10 * a + digit_value c) 0 ds"

text \<open>\<open>xs[i]\<close> on an array: \<open>undefined\<close> outside \<open>0 .. length - 1\<close>.\<close>

definition js_index :: "'a list \<Rightarrow> int \<Rightarrow> 'a option" where
  "js_index xs i = (if 0 \<le> i \<and> i < int (length xs) then Some (xs ! nat i) else None)"

text \<open>\<open>[...new Set(xs)]\<close>: a set keeps its elements in insertion order, and adding an
  element it already holds changes nothing.\<close>

definition Set_add :: "'a list \<Rightarrow> 'a \<Rightarrow> 'a list" where
  "Set_add seen x = (if x \<in> set seen then seen else seen @ [x])"

definition new_Set :: "'a list \<Rightarrow> 'a list" where
  "new_Set xs = foldl Set_add [] xs"

section \<open>The marker pattern\<close>

text \<open>
  \<open>/\[(\d+)\]/\<close> tried at the start of a string: an opening bracket, one or more digits
  (greedy), a closing bracket. The result is the digits of the group and the text after
  the match.
\<close>

definition match_at :: "string \<Rightarrow> (string \<times> string) option" where
  "match_at s =
     (case s of
        [] \<Rightarrow> None
      | c # cs \<Rightarrow>
          if c \<noteq> CHR ''['' then None
          else (case dropWhile is_digit cs of
                  [] \<Rightarrow> None
                | d # rest \<Rightarrow>
                    if takeWhile is_digit cs \<noteq> [] \<and> d = CHR '']''
                    then Some (takeWhile is_digit cs, rest) else None))"

lemma match_at_shorter: "match_at s = Some (ds, rest) \<Longrightarrow> length rest < length s"
proof -
  assume m: "match_at s = Some (ds, rest)"
  then obtain c cs where s: "s = c # cs"
    by (cases s) (auto simp: match_at_def)
  from m s obtain d where "dropWhile is_digit cs = d # rest"
    by (auto simp: match_at_def split: if_splits list.splits)
  then have "length rest < length (dropWhile is_digit cs)" by simp
  also have "\<dots> \<le> length cs" by (rule length_dropWhile_le)
  finally show ?thesis using s by simp
qed

text \<open>\<open>content.match(/\[(\d+)\]/g)\<close>: every match, left to right, each search resuming
  after the previous match; \<open>null\<close> when there is none.\<close>

function match_all :: "string \<Rightarrow> string list" where
  "match_all [] = []"
| "match_all (c # cs) =
     (case match_at (c # cs) of
        Some (ds, rest) \<Rightarrow> (''['' @ ds @ '']'') # match_all rest
      | None \<Rightarrow> match_all cs)"
  by pat_completeness auto
termination
  by (relation "measure length") (auto dest: match_at_shorter)

definition string_match_global :: "string \<Rightarrow> string list option" where
  "string_match_global s = (if match_all s = [] then None else Some (match_all s))"

text \<open>\<open>m.replace(/[\[\]]/g, '')\<close>\<close>

definition strip_brackets :: "string \<Rightarrow> string" where
  "strip_brackets m = filter (\<lambda>c. c \<noteq> CHR ''['' \<and> c \<noteq> CHR '']'') m"

section \<open>The client: parsing citations\<close>

text \<open>
  \<open>ApiSource\<close> of the page: every field is optional. \<open>id\<close> and \<open>content\<close> go through
  \<open>??\<close>, so \<open>None\<close> stands for \<open>null\<close> and \<open>undefined\<close>; \<open>page\<close> and \<open>similarity\<close> are tested
  with \<open>typeof\<close> and may be any value. The test \<open>typeof v === "number"\<close> holds of the
  values \<open>Num n\<close> and of no other, so it is written as a case distinction. A source is
  an object, which the test \<open>if (sources[sourceIndex])\<close> takes for true.
\<close>

record ClientSource =
  api_id :: "string option"
  api_page :: js_value
  api_content :: "string option"
  api_similarity :: js_value

record Citation =
  cit_id :: string
  cit_page :: js_number
  cit_content :: string
  cit_similarity :: js_number

text \<open>The object \<open>{ text, citations }\<close> the parser returns; the field \<open>text\<close> is written
  \<open>text'\<close>.\<close>

record ParseResult =
  text' :: string
  citations :: "Citation list"

text \<open>The body of the \<open>forEach\<close>: one citation number, the list built so far.\<close>

definition push_citation :: "ClientSource list \<Rightarrow> Citation list \<Rightarrow> nat \<Rightarrow> Citation list" where
  "push_citation sources acc citationNumber =
     (let sourceIndex = int citationNumber - 1 in
      case js_index sources sourceIndex of
        None \<Rightarrow> acc
      | Some s \<Rightarrow>
          acc @
          [\<lparr>cit_id =
              (case api_id s of Some i \<Rightarrow> i | None \<Rightarrow> ''citation-'' @ decimal (nat sourceIndex)),
            cit_page =
              (case api_page s of Num p \<Rightarrow> p | _ \<Rightarrow> Finite (of_int (sourceIndex + 1))),
            cit_content = (case api_content s of Some c \<Rightarrow> c | None \<Rightarrow> ''''),
            cit_similarity = (case api_similarity s of Num x \<Rightarrow> x | _ \<Rightarrow> Finite 0)\<rparr>])"

definition parseCitations :: "string \<Rightarrow> ClientSource list \<Rightarrow> ParseResult" where
  "parseCitations content sources =
     \<lparr>text' = content,
      citations =
        (case string_match_global content of
           None \<Rightarrow> []
         | Some matches \<Rightarrow>
             if length sources > 0
             then foldl (push_citation sources) []
                    (new_Set (map (\<lambda>m. parseInt (strip_brackets m)) matches))
             else [])\<rparr>"

text \<open>
  The reading of the specification: the distinct elements of a list, each at the place
  of its first occurrence.
\<close>

primrec first_occurrences :: "'a list \<Rightarrow> 'a list" where
  "first_occurrences [] = []"
| "first_occurrences (x # xs) = x # filter (\<lambda>y. y \<noteq> x) (first_occurrences xs)"

text \<open>The numbers of the markers of a text, one per occurrence, left to right.\<close>

definition marker_numbers :: "string \<Rightarrow> nat list" where
  "marker_numbers content = map (\<lambda>m. parseInt (strip_brackets m)) (match_all content)"

text \<open>The citation a marker number \<open>n\<close> stands for when \<open>sources[n-1]\<close> exists.\<close>

definition citation_of :: "ClientSource list \<Rightarrow> nat \<Rightarrow> Citation" where
  "citation_of sources n =
     (let s = sources ! (n - 1) in
      \<lparr>cit_id = (case api_id s of Some i \<Rightarrow> i | None \<Rightarrow> ''citation-'' @ decimal (n - 1)),
       cit_page = (case api_page s of Num p \<Rightarrow> p | _ \<Rightarrow> Finite (of_nat n)),
       cit_content = (case api_content s of Some c \<Rightarrow> c | None \<Rightarrow> ''''),
       cit_similarity = (case api_similarity s of Num x \<Rightarrow> x | _ \<Rightarrow> Finite 0)\<rparr>)"

section \<open>The client: rendering a message\<close>

text \<open>
  \<open>content.split(/(\[\d+\])/)\<close>: the text before each match, then the match (the group
  is the whole match), and at the end the text after the last match. The pieces of text
  may be empty; the result has an odd number of elements.
\<close>

function split_markers :: "string \<Rightarrow> string \<Rightarrow> string list" where
  "split_markers before [] = [before]"
| "split_markers before (c # cs) =
     (case match_at (c # cs) of
        Some (ds, rest) \<Rightarrow> before # (''['' @ ds @ '']'') # split_markers [] rest
      | None \<Rightarrow> split_markers (before @ [c]) cs)"
  by pat_completeness auto
termination
  by (relation "measure (\<lambda>(before, s). length s)") (auto dest: match_at_shorter)

definition js_split :: "string \<Rightarrow> string list" where
  "js_split s = split_markers [] s"

text \<open>\<open>part.match(/\[(\d+)\]/)\<close>, without the \<open>g\<close> flag: the first match in the string, as
  the digits of its group; \<open>null\<close> when there is none.\<close>

fun string_match :: "string \<Rightarrow> string option" where
  "string_match [] = None"
| "string_match (c # cs) =
     (case match_at (c # cs) of
        Some (ds, rest) \<Rightarrow> Some ds
      | None \<Rightarrow> string_match cs)"

datatype role = User | Assistant

record Message =
  msg_role :: role
  msg_content :: string
  msg_citations :: "Citation list option"

text \<open>What a part of the text is rendered as: a button that opens a citation, labelled
  with a text, or a plain span.\<close>

datatype element = Button Citation string | Span string

definition render_part :: "Message \<Rightarrow> string \<Rightarrow> element" where
  "render_part message part =
     (case (string_match part, msg_citations message) of
        (Some digits, Some cits) \<Rightarrow>
          (let citationIndex = int (parseInt digits) - 1 in
           case js_index cits citationIndex of
             Some citation \<Rightarrow> Button citation (''['' @ digits @ '']'')
           | None \<Rightarrow> Span part)
      | _ \<Rightarrow> Span part)"

definition render_message :: "Message \<Rightarrow> element list" where
  "render_message message = map (render_part message) (js_split (msg_content message))"

text \<open>The assistant message \<open>sendMessage\<close> builds from a response.\<close>

definition assistantMessage :: "string \<Rightarrow> ClientSource list \<Rightarrow> Message" where
  "assistantMessage answer sources =
     (let r = parseCitations answer sources in
      \<lparr>msg_role = Assistant, msg_content = text' r, msg_citations = Some (citations r)\<rparr>)"

section \<open>The client: the citation popup\<close>

text \<open>Screen coordinates are rationals; the rounding of doubles is not modelled.\<close>

record CitationPopup =
  popup_citation :: Citation
  popup_x :: rat
  popup_y :: rat

record DOMRect =
  rect_left :: rat
  rect_top :: rat

text \<open>The state \<open>citationPopup\<close> is a popup or \<open>null\<close>; it starts as \<open>null\<close>.\<close>

type_synonym popup_state = "CitationPopup option"

definition initial_popup_state :: popup_state where
  "initial_popup_state = None"

definition handleCitationClick :: "Citation \<Rightarrow> DOMRect \<Rightarrow> popup_state \<Rightarrow> popup_state" where
  "handleCitationClick citation rect st =
     Some \<lparr>popup_citation = citation, popup_x = rect_left rect, popup_y = rect_top rect - 10\<rparr>"

definition closeCitationPopup :: "popup_state \<Rightarrow> popup_state" where
  "closeCitationPopup st = None"

text \<open>The events that reach the state: a click on a citation button, on the close button
  of the popup, on the scrim behind it.\<close>

datatype event = Citation_click Citation DOMRect | Close_click | Scrim_click

fun handle :: "popup_state \<Rightarrow> event \<Rightarrow> popup_state" where
  "handle st (Citation_click citation rect) = handleCitationClick citation rect st"
| "handle st Close_click = closeCitationPopup st"
| "handle st Scrim_click = closeCitationPopup st"

text \<open>What the page shows of the state: the popups on screen, and whether the scrim is
  there (\<open>citationPopup && ...\<close>, twice).\<close>

definition popups_shown :: "popup_state \<Rightarrow> CitationPopup list" where
  "popups_shown st = (case st of Some p \<Rightarrow> [p] | None \<Rightarrow> [])"

definition scrim_shown :: "popup_state \<Rightarrow> bool" where
  "scrim_shown st = (case st of Some p \<Rightarrow> True | None \<Rightarrow> False)"

section \<open>The server: context and sources\<close>

text \<open>
  \<open>RetrievedChunk\<close>. \<open>content\<close> has its declared type; \<open>similarity\<close> and \<open>metadata\<close> are
  tested at run time (\<open>typeof\<close>, \<open>?.\<close>) and may be any value. \<open>chunk_index\<close> is never read.
\<close>

record RetrievedChunk =
  chunk_content :: string
  chunk_similarity :: js_value
  chunk_metadata :: js_value

text \<open>\<open>ApiSource\<close> of the route; \<open>None\<close> is the \<open>null\<close> page.\<close>

record ApiSource =
  src_id :: string
  src_page :: "js_number option"
  src_content :: string
  src_similarity :: js_number
  src_index :: nat

text \<open>\<open>xs.map((x, i) => f(x, i))\<close>, the index counted from \<open>i\<close>.\<close>

fun map_from :: "nat \<Rightarrow> ('a \<Rightarrow> nat \<Rightarrow> 'b) \<Rightarrow> 'a list \<Rightarrow> 'b list" where
  "map_from i f [] = []"
| "map_from i f (x # xs) = f x i # map_from (Suc i) f xs"

definition array_map :: "('a \<Rightarrow> nat \<Rightarrow> 'b) \<Rightarrow> 'a list \<Rightarrow> 'b list" where
  "array_map f xs = map_from 0 f xs"

text \<open>\<open>xs.join(sep)\<close> on an array of strings.\<close>

fun array_join :: "string \<Rightarrow> string list \<Rightarrow> string" where
  "array_join sep [] = ''''"
| "array_join sep [x] = x"
| "array_join sep (x # y # ys) = x @ sep @ array_join sep (y # ys)"

definition blank_line :: string where
  "blank_line = [CHR 0x0A, CHR 0x0A]"

text \<open>The page of a chunk, \<open>c.metadata?.page\<close>.\<close>

definition chunk_page :: "RetrievedChunk \<Rightarrow> js_value" where
  "chunk_page c = optional_get (chunk_metadata c) ''page''"

definition context_entry :: "(rat \<Rightarrow> string) \<Rightarrow> RetrievedChunk \<Rightarrow> nat \<Rightarrow> string" where
  "context_entry repr c i =
     (let pageNum = (case chunk_page c of Num p \<Rightarrow> number_toString repr p | _ \<Rightarrow> ''?'')
      in ''['' @ decimal (i + 1) @ ''] (Page '' @ pageNum @ '') '' @ chunk_content c)"

text \<open>The constant \<open>context\<close> of the route.\<close>

definition context_block :: "(rat \<Rightarrow> string) \<Rightarrow> RetrievedChunk list \<Rightarrow> string" where
  "context_block repr chunks = array_join blank_line (array_map (context_entry repr) chunks)"

definition processedSource :: "RetrievedChunk \<Rightarrow> nat \<Rightarrow> ApiSource" where
  "processedSource chunk index =
     \<lparr>src_id = ''source-'' @ decimal index,
      src_page = (case chunk_page chunk of Num p \<Rightarrow> Some p | _ \<Rightarrow> None),
      src_content = chunk_content chunk,
      src_similarity = (case chunk_similarity chunk of Num x \<Rightarrow> x | _ \<Rightarrow> Finite 0),
      src_index = index + 1\<rparr>"

definition processedSources :: "RetrievedChunk list \<Rightarrow> ApiSource list" where
  "processedSources chunks = array_map processedSource chunks"

section \<open>The server: the request handler\<close>

type_synonym embedding = "js_number list"

record rpc_args =
  query_embedding :: embedding
  match_count :: nat
  filter_source :: string

text \<open>What \<open>supabase.rpc\<close> resolves to: \<open>data\<close> (\<open>None\<close> is \<open>null\<close>) and \<open>error\<close>, which is
  \<open>null\<close> or an error object. An object is truthy, so \<open>if (error) throw error\<close> throws
  exactly when \<open>error\<close> is not \<open>null\<close>.\<close>

record rpc_result =
  rpc_data :: "RetrievedChunk list option"
  rpc_error :: "PostgrestError option"

record chat_request =
  chat_model :: string
  temperature :: rat
  messages :: "(string \<times> string) list"

text \<open>A completion is its list of choices; a choice is the content of its message:
  \<open>None\<close> when the choice has no message, \<open>Some None\<close> when the content is \<open>null\<close>.\<close>

type_synonym completion = "string option option list"

text \<open>
  What the handler runs against: the text of the numbers that do not print as plain
  integers, and the three remote services. A service call returns or throws.
\<close>

record env =
  number_repr :: "rat \<Rightarrow> string"
  embeddings_create :: "string \<Rightarrow> string \<Rightarrow> thrown + embedding list"
  rpc :: "string \<Rightarrow> rpc_args \<Rightarrow> thrown + rpc_result"
  chat_completions_create :: "chat_request \<Rightarrow> thrown + completion"

text \<open>What a request did besides answering, in order.\<close>

datatype effect =
    Embedding_call string string
  | Retrieval_call string rpc_args
  | Generation_call chat_request
  | Console_error string string

datatype response_body = Error_body string | Answer_body string "ApiSource list"

record response =
  status :: nat
  headers :: "(string \<times> string) list"
  body :: response_body

definition json_response :: "nat \<Rightarrow> response_body \<Rightarrow> response" where
  "json_response st b =
     \<lparr>status = st, headers = [(''content-type'', ''application/json'')], body = b\<rparr>"

text \<open>\<open>v ?? d\<close>\<close>

definition nullish_or :: "js_value \<Rightarrow> js_value \<Rightarrow> js_value" where
  "nullish_or v d = (case v of Undefined \<Rightarrow> d | Null \<Rightarrow> d | _ \<Rightarrow> v)"

text \<open>\<open>v.toString()\<close>; Node's wording of the \<open>TypeError\<close> on \<open>null\<close> and \<open>undefined\<close>.\<close>

definition cannot_read :: "string \<Rightarrow> string \<Rightarrow> thrown" where
  "cannot_read what prop =
     Error_instance
       (''Cannot read properties of '' @ what @ '' (reading '' @ [CHR 0x27] @ prop @ [CHR 0x27] @ '')'')"

definition toString :: "(rat \<Rightarrow> string) \<Rightarrow> js_value \<Rightarrow> thrown + string" where
  "toString repr v =
     (case v of
        Undefined \<Rightarrow> Inl (cannot_read ''undefined'' ''toString'')
      | Null \<Rightarrow> Inl (cannot_read ''null'' ''toString'')
      | Bool b \<Rightarrow> Inr (if b then ''true'' else ''false'')
      | Num n \<Rightarrow> Inr (number_toString repr n)
      | Str s \<Rightarrow> Inr s
      | Obj _ outcome \<Rightarrow> outcome)"

text \<open>White space and line terminators among the code units below 256, and
  \<open>String.prototype.trim\<close>.\<close>

definition is_white_space :: "char \<Rightarrow> bool" where
  "is_white_space c =
     (c \<in> set [CHR 0x09, CHR 0x0A, CHR 0x0B, CHR 0x0C, CHR 0x0D, CHR 0x20, CHR 0xA0])"

definition trim :: "string \<Rightarrow> string" where
  "trim s = rev (dropWhile is_white_space (rev (dropWhile is_white_space s)))"

text \<open>\<open>(body?.message ?? "").toString()\<close>\<close>

definition message_text :: "(rat \<Rightarrow> string) \<Rightarrow> js_value \<Rightarrow> thrown + string" where
  "message_text repr parsed = toString repr (nullish_or (optional_get parsed ''message'') (Str ''''))"

definition embedding_model :: string where
  "embedding_model = ''text-embedding-3-small''"

text \<open>\<open>embedQuery\<close>: \<open>resp.data[0].embedding\<close> throws when \<open>data\<close> is empty.\<close>

definition embedQuery :: "env \<Rightarrow> string \<Rightarrow> thrown + embedding" where
  "embedQuery e query =
     (case embeddings_create e embedding_model query of
        Inl err \<Rightarrow> Inl err
      | Inr [] \<Rightarrow> Inl (cannot_read ''undefined'' ''embedding'')
      | Inr (emb # _) \<Rightarrow> Inr emb)"

definition retrieval_args :: "embedding \<Rightarrow> rpc_args" where
  "retrieval_args queryEmb =
     \<lparr>query_embedding = queryEmb, match_count = 8, filter_source = ''human-nutrition-text.pdf''\<rparr>"

definition fallback_answer :: string where
  "fallback_answer = ''try to response  related to the question and the context provided''"

definition system_prompt :: string where
  "system_prompt =
     ''You are a strict RAG assistant. Answer ONLY using the CONTEXT. '' @
     ''try to response related to the question and the context provided '' @
     ''Cite sources like [1], [2] and include page numbers (e.g., p. X) next to each claim. '' @
     ''Format citations as [1], [2], etc. at the end of relevant sentences.''"

definition generation_request :: "string \<Rightarrow> string \<Rightarrow> chat_request" where
  "generation_request message ctx =
     \<lparr>chat_model = ''gpt-4o-mini'',
      temperature = 2 / 10,
      messages =
        [(''system'', system_prompt),
         (''user'', ''QUESTION: '' @ message @ blank_line @ ''CONTEXT:'' @ [CHR 0x0A] @ ctx)]\<rparr>"

text \<open>\<open>completion.choices[0]?.message?.content ?? ""\<close>\<close>

definition answer_of :: "completion \<Rightarrow> string" where
  "answer_of choices =
     (case choices of
        [] \<Rightarrow> ''''
      | choice # _ \<Rightarrow>
          (case choice of None \<Rightarrow> '''' | Some None \<Rightarrow> '''' | Some (Some s) \<Rightarrow> s))"

text \<open>
  The body of the \<open>try\<close>: a response or what was thrown, with the effects so far. The
  argument is the outcome of \<open>req.json()\<close>.
\<close>

definition try_block :: "env \<Rightarrow> thrown + js_value \<Rightarrow> (thrown + response) \<times> effect list" where
  "try_block e req_json =
     (case req_json of
        Inl err \<Rightarrow> (Inl err, [])
      | Inr parsed \<Rightarrow>
     (case message_text (number_repr e) parsed of
        Inl err \<Rightarrow> (Inl err, [])
      | Inr s \<Rightarrow>
     (let message = trim s in
      if message = [] then (Inr (json_response 400 (Error_body ''Empty query'')), [])
      else
     (let fx1 = [Embedding_call embedding_model message] in
      case embedQuery e message of
        Inl err \<Rightarrow> (Inl err, fx1)
      | Inr queryEmb \<Rightarrow>
     (let fx2 = fx1 @ [Retrieval_call ''match_documents'' (retrieval_args queryEmb)] in
      case rpc e ''match_documents'' (retrieval_args queryEmb) of
        Inl err \<Rightarrow> (Inl err, fx2)
      | Inr r \<Rightarrow>
     (case rpc_error r of
        Some pgerr \<Rightarrow> (Inl (Postgrest_object pgerr), fx2)
      | None \<Rightarrow>
     (let chunks = (case rpc_data r of Some cs \<Rightarrow> cs | None \<Rightarrow> []);
          ctx = context_block (number_repr e) chunks
      in
      if ctx = [] then (Inr (json_response 200 (Answer_body fallback_answer [])), fx2)
      else
     (let fx3 = fx2 @ [Generation_call (generation_request message ctx)] in
      case chat_completions_create e (generation_request message ctx) of
        Inl err \<Rightarrow> (Inl err, fx3)
      | Inr completion \<Rightarrow>
          (Inr (json_response 200 (Answer_body (answer_of completion) (processedSources chunks))),
           fx3)))))))))"

text \<open>\<open>err instanceof Error ? err.message : String(err)\<close>. A plain object has the string
  \<open>[object Object]\<close>.\<close>

definition caught_message :: "thrown \<Rightarrow> string" where
  "caught_message err =
     (case err of
        Error_instance m \<Rightarrow> m
      | Postgrest_object pgerr \<Rightarrow> ''[object Object]''
      | Non_error s \<Rightarrow> s)"

definition catch_block :: "thrown \<Rightarrow> response \<times> effect list" where
  "catch_block err =
     (let message = caught_message err in
      (json_response 500 (Error_body (if message = [] then ''Unknown error'' else message)),
       [Console_error ''api/chat error:'' message]))"

definition POST :: "env \<Rightarrow> thrown + js_value \<Rightarrow> response \<times> effect list" where
  "POST e req_json =
     (case try_block e req_json of
        (Inr resp, fx) \<Rightarrow> (resp, fx)
      | (Inl err, fx) \<Rightarrow> (fst (catch_block err), fx @ snd (catch_block err)))"

section \<open>Readings of the specification\<close>

text \<open>A finite number: a value of type number that is neither \<open>NaN\<close> nor infinite.\<close>

definition is_finite_number :: "js_value \<Rightarrow> bool" where
  "is_finite_number v = (case v of Num (Finite q) \<Rightarrow> True | _ \<Rightarrow> False)"

text \<open>
  The reading of the specification: the description of a failure. An \<open>Error\<close> carries it as
  its message, the error object of the store as its field \<open>message\<close>; a thrown value of
  another kind is described by its string.
\<close>

definition failure_description :: "thrown \<Rightarrow> string" where
  "failure_description err =
     (case err of
        Error_instance m \<Rightarrow> m
      | Postgrest_object pgerr \<Rightarrow> pg_message pgerr
      | Non_error s \<Rightarrow> s)"

text \<open>
  The reading of the specification: a stage of the pipeline fails with \<open>err\<close> on a
  message, after the service calls \<open>calls\<close>, the failing one last. The embedding call
  throws; or the retrieval call throws, or returns an error; or, with chunks retrieved,
  the generation call throws.
\<close>

inductive stage_fails :: "env \<Rightarrow> string \<Rightarrow> thrown \<Rightarrow> effect list \<Rightarrow> bool"
  for e message where
  embedding_fails:
    "embedQuery e message = Inl err \<Longrightarrow>
     stage_fails e message err [Embedding_call embedding_model message]"
| retrieval_throws:
    "embedQuery e message = Inr queryEmb \<Longrightarrow>
     rpc e ''match_documents'' (retrieval_args queryEmb) = Inl err \<Longrightarrow>
     stage_fails e message err
       [Embedding_call embedding_model message,
        Retrieval_call ''match_documents'' (retrieval_args queryEmb)]"
| retrieval_fails:
    "embedQuery e message = Inr queryEmb \<Longrightarrow>
     rpc e ''match_documents'' (retrieval_args queryEmb) = Inr r \<Longrightarrow>
     rpc_error r = Some pgerr \<Longrightarrow>
     stage_fails e message (Postgrest_object pgerr)
       [Embedding_call embedding_model message,
        Retrieval_call ''match_documents'' (retrieval_args queryEmb)]"
| generation_fails:
    "embedQuery e message = Inr queryEmb \<Longrightarrow>
     rpc e ''match_documents'' (retrieval_args queryEmb) = Inr r \<Longrightarrow>
     rpc_error r = None \<Longrightarrow>
     rpc_data r = Some chunks \<Longrightarrow>
     chunks \<noteq> [] \<Longrightarrow>
     chat_completions_create e
       (generation_request message (context_block (number_repr e) chunks)) = Inl err \<Longrightarrow>
     stage_fails e message err
       [Embedding_call embedding_model message,
        Retrieval_call ''match_documents'' (retrieval_args queryEmb),
        Generation_call (generation_request message (context_block (number_repr e) chunks))]"

code_pred (modes: i \<Rightarrow> i \<Rightarrow> o \<Rightarrow> o \<Rightarrow> bool, i \<Rightarrow> i \<Rightarrow> i \<Rightarrow> i \<Rightarrow> bool) stage_fails .

section \<open>Example data\<close>

text \<open>Three sources: one complete, one with a \<open>null\<close> page, one with neither id nor
  content and a similarity that is not a number.\<close>

definition three_sources :: "ClientSource list" where
  "three_sources =
     [\<lparr>api_id = Some ''source-0'', api_page = Num (Finite 12), api_content = Some ''carbs'',
       api_similarity = Num (Finite (9 / 10))\<rparr>,
      \<lparr>api_id = Some ''source-1'', api_page = Null, api_content = Some ''fats'',
       api_similarity = Num (Finite (8 / 10))\<rparr>,
      \<lparr>api_id = None, api_page = Num (Finite 46), api_content = None,
       api_similarity = Str ''high''\<rparr>]"

text \<open>Two citations to click on.\<close>

definition carbs_citation :: Citation where
  "carbs_citation =
     \<lparr>cit_id = ''source-0'', cit_page = Finite 12, cit_content = ''carbs'',
      cit_similarity = Finite (9 / 10)\<rparr>"

definition fats_citation :: Citation where
  "fats_citation =
     \<lparr>cit_id = ''source-1'', cit_page = Finite 2, cit_content = ''fats'',
      cit_similarity = Finite (8 / 10)\<rparr>"

text \<open>Three chunks: a numeric page; a page and a similarity that are strings; no metadata
  and a similarity that is \<open>NaN\<close>.\<close>

definition three_chunks :: "RetrievedChunk list" where
  "three_chunks =
     [\<lparr>chunk_content = ''carbs'', chunk_similarity = Num (Finite (9 / 10)),
       chunk_metadata = Obj [(''page'', Num (Finite 12))] (Inr ''[object Object]'')\<rparr>,
      \<lparr>chunk_content = ''fats'', chunk_similarity = Str ''high'',
       chunk_metadata = Obj [(''page'', Str ''45'')] (Inr ''[object Object]'')\<rparr>,
      \<lparr>chunk_content = ''proteins'', chunk_similarity = Num NaN, chunk_metadata = Undefined\<rparr>]"

text \<open>A chunk whose similarity is \<open>Infinity\<close>, which JSON parsing gives for a literal
  beyond the range of doubles.\<close>

definition infinite_chunk :: RetrievedChunk where
  "infinite_chunk =
     \<lparr>chunk_content = ''x'', chunk_similarity = Num PosInfinity, chunk_metadata = Undefined\<rparr>"

text \<open>Requests and services to try the handler on.\<close>

definition request_of :: "string \<Rightarrow> js_value" where
  "request_of m = Obj [(''message'', Str m)] (Inr ''[object Object]'')"

definition empty_store_env :: env where
  "empty_store_env =
     \<lparr>number_repr = (\<lambda>q. ''0.5''),
      embeddings_create = (\<lambda>m q. Inr [[Finite 1, Finite 0]]),
      rpc = (\<lambda>f args. Inr \<lparr>rpc_data = Some [], rpc_error = None\<rparr>),
      chat_completions_create = (\<lambda>rq. Inr [Some (Some ''Carbs [1].'')])\<rparr>"

definition rate_limited_env :: env where
  "rate_limited_env =
     \<lparr>number_repr = (\<lambda>q. ''0.5''),
      embeddings_create = (\<lambda>m q. Inr [[Finite 1, Finite 0]]),
      rpc = (\<lambda>f args. Inr \<lparr>rpc_data = Some three_chunks, rpc_error = None\<rparr>),
      chat_completions_create = (\<lambda>rq. Inl (Error_instance ''429 rate limit''))\<rparr>"

definition missing_function :: PostgrestError where
  "missing_function =
     \<lparr>pg_message = ''function match_documents does not exist'', pg_details = '''',
      pg_hint = '''', pg_code = ''42883''\<rparr>"

definition store_error_env :: env where
  "store_error_env =
     \<lparr>number_repr = (\<lambda>q. ''0.5''),
      embeddings_create = (\<lambda>m q. Inr [[Finite 1, Finite 0]]),
      rpc = (\<lambda>f args. Inr \<lparr>rpc_data = None, rpc_error = Some missing_function\<rparr>),
      chat_completions_create = (\<lambda>rq. Inr [Some (Some ''Carbs [1].'')])\<rparr>"

definition silent_failure_env :: env where
  "silent_failure_env =
     \<lparr>number_repr = (\<lambda>q. ''0.5''),
      embeddings_create = (\<lambda>m q. Inl (Error_instance '''')),
      rpc = (\<lambda>f args. Inr \<lparr>rpc_data = Some [], rpc_error = None\<rparr>),
      chat_completions_create = (\<lambda>rq. Inr [])\<rparr>"

section \<open>Properties of the citation parser\<close>

lemma set_first_occurrences: "set (first_occurrences xs) = set xs"
  by (induction xs) auto

lemma distinct_first_occurrences: "distinct (first_occurrences xs)"
  by (induction xs) auto

lemma foldl_Set_add:
  "foldl Set_add acc xs = acc @ filter (\<lambda>y. y \<notin> set acc) (first_occurrences xs)"
proof (induction xs arbitrary: acc)
  case Nil
  show ?case by simp
next
  case (Cons x xs)
  show ?case
  proof (cases "x \<in> set acc")
    case True
    have "filter (\<lambda>y. y \<notin> set acc) (filter (\<lambda>y. y \<noteq> x) (first_occurrences xs))
          = filter (\<lambda>y. y \<notin> set acc) (first_occurrences xs)"
      using True by (auto intro: filter_cong)
    with True Cons.IH [of acc] show ?thesis
      by (simp add: Set_add_def)
  next
    case False
    have "filter (\<lambda>y. y \<notin> set (acc @ [x])) (first_occurrences xs)
          = filter (\<lambda>y. y \<notin> set acc) (filter (\<lambda>y. y \<noteq> x) (first_occurrences xs))"
      by (auto intro: filter_cong)
    with False Cons.IH [of "acc @ [x]"] show ?thesis
      by (simp add: Set_add_def)
  qed
qed

lemma new_Set_first_occurrences: "new_Set xs = first_occurrences xs"
  by (simp add: new_Set_def foldl_Set_add)

lemma push_citation_in_range:
  "1 \<le> n \<Longrightarrow> n \<le> length sources \<Longrightarrow>
   push_citation sources acc n = acc @ [citation_of sources n]"
proof -
  assume lo: "1 \<le> n" and hi: "n \<le> length sources"
  have idx: "js_index sources (int n - 1) = Some (sources ! (n - 1))"
    using lo hi by (simp add: js_index_def nat_diff_distrib')
  have conv: "nat (int n - 1) = n - 1" "(of_int (int n - 1 + 1) :: rat) = of_nat n"
    using lo by (simp_all add: nat_diff_distrib')
  show ?thesis
    by (simp add: push_citation_def citation_of_def Let_def idx conv
        cong: option.case_cong js_value.case_cong)
qed

lemma push_citation_out_of_range:
  "\<not> (1 \<le> n \<and> n \<le> length sources) \<Longrightarrow> push_citation sources acc n = acc"
  by (auto simp: push_citation_def js_index_def Let_def)

lemma foldl_push_citation:
  "foldl (push_citation sources) acc ns =
   acc @ map (citation_of sources) (filter (\<lambda>n. 1 \<le> n \<and> n \<le> length sources) ns)"
proof (induction ns arbitrary: acc)
  case Nil
  show ?case by simp
next
  case (Cons n ns)
  show ?case
  proof (cases "1 \<le> n \<and> n \<le> length sources")
    case True
    then show ?thesis
      using Cons.IH [of "acc @ [citation_of sources n]"]
      by (simp add: push_citation_in_range)
  next
    case False
    then show ?thesis
      using Cons.IH [of acc] push_citation_out_of_range [OF False, of acc]
      by simp
  qed
qed

lemma citations_parseCitations:
  "citations (parseCitations content sources) =
   map (citation_of sources)
     (filter (\<lambda>n. 1 \<le> n \<and> n \<le> length sources) (first_occurrences (marker_numbers content)))"
proof (cases "match_all content = [] \<or> sources = []")
  case True
  then show ?thesis
    by (auto simp: parseCitations_def string_match_global_def marker_numbers_def)
next
  case False
  then show ?thesis
    by (simp add: parseCitations_def string_match_global_def marker_numbers_def
        new_Set_first_occurrences foldl_push_citation)
qed

text \<open>
  C2. The citation list is built from the distinct marker numbers of the text, in the
  order of their first occurrence. A number \<open>n\<close> gives a citation exactly when
  \<open>1 \<le> n \<le> sources.length\<close>; the citation is taken from \<open>sources[n-1]\<close>, and its page is
  the page of the source when that is a number, \<open>n\<close> otherwise. The other numbers give
  nothing.
\<close>

theorem parseCitations_resolves_markers:
  "citations (parseCitations content sources) =
     map (citation_of sources)
       (filter (\<lambda>n. 1 \<le> n \<and> n \<le> length sources)
          (first_occurrences (marker_numbers content)))
   \<and> distinct (first_occurrences (marker_numbers content))
   \<and> set (first_occurrences (marker_numbers content)) = set (marker_numbers content)
   \<and> cit_page (citation_of sources n) =
       (case api_page (sources ! (n - 1)) of Num p \<Rightarrow> p | _ \<Rightarrow> Finite (of_nat n))"
  by (simp add: citations_parseCitations distinct_first_occurrences set_first_occurrences
      citation_of_def Let_def)

theorem parseCitations_resolves_markers_witness:
  "citations (parseCitations ''a[2][9][1][2]'' three_sources) =
     [\<lparr>cit_id = ''source-1'', cit_page = Finite 2, cit_content = ''fats'',
       cit_similarity = Finite (8 / 10)\<rparr>,
      \<lparr>cit_id = ''source-0'', cit_page = Finite 12, cit_content = ''carbs'',
       cit_similarity = Finite (9 / 10)\<rparr>]"
  using parseCitations_resolves_markers [of "''a[2][9][1][2]''" three_sources 1]
  by (simp add: marker_numbers_def match_at_def is_digit_def strip_brackets_def parseInt_def
      digit_value_def citation_of_def three_sources_def)


text \<open>
  C10. The parser returns its input text as it received it: no marker is removed or
  rewritten, whether or not it resolves to a citation.
\<close>

theorem parseCitations_text_unchanged:
  "text' (parseCitations content sources) = content"
  by (simp add: parseCitations_def)

theorem parseCitations_text_unchanged_witness:
  "text' (parseCitations ''a[2][9][1][2]'' three_sources) = ''a[2][9][1][2]''"
  using parseCitations_text_unchanged [of "''a[2][9][1][2]''" three_sources]
  by simp

text \<open>
  C8. Parsing is a function of the text and the sources alone: \<open>parseCitations\<close> and the
  split read nothing else (the pattern is created anew at each call, and a global match
  starts from index 0). Parsing what the parser returned, with the same sources, gives
  the same citation list and the same parts again.
\<close>

theorem parseCitations_idempotent:
  "parseCitations (text' (parseCitations content sources)) sources
     = parseCitations content sources
   \<and> citations (parseCitations (text' (parseCitations content sources)) sources)
     = citations (parseCitations content sources)
   \<and> js_split (text' (parseCitations content sources)) = js_split content"
proof -
  have "text' (parseCitations content sources) = content"
    by (simp add: parseCitations_def)
  then show ?thesis by simp
qed

theorem parseCitations_idempotent_witness:
  "js_split (text' (parseCitations ''a[2][9]b'' three_sources)) = [''a'', ''[2]'', '''', ''[9]'', ''b'']
   \<and> length (citations (parseCitations (text' (parseCitations ''a[2][9]b'' three_sources))
         three_sources)) = 1"
  using parseCitations_idempotent [of "''a[2][9]b''" three_sources]
  by (simp add: js_split_def match_at_def is_digit_def citations_parseCitations
      marker_numbers_def strip_brackets_def parseInt_def digit_value_def three_sources_def)

section \<open>Properties of rendering\<close>

lemma text_parseCitations: "text' (parseCitations content sources) = content"
  by (simp add: parseCitations_def)

lemma match_at_marker:
  assumes "ds \<noteq> []" and "\<forall>c \<in> set ds. is_digit c"
  shows "match_at (''['' @ ds @ '']'' @ rest) = Some (ds, rest)"
proof -
  have "\<not> is_digit CHR '']''" by (simp add: is_digit_def)
  with assms(2) have "takeWhile is_digit (ds @ '']'' @ rest) = ds"
    and "dropWhile is_digit (ds @ '']'' @ rest) = '']'' @ rest"
    by (simp_all add: takeWhile_append dropWhile_append)
  with assms(1) show ?thesis by (simp add: match_at_def)
qed

lemma string_match_marker:
  assumes "ds \<noteq> []" and "\<forall>c \<in> set ds. is_digit c"
  shows "string_match (''['' @ ds @ '']'') = Some ds"
  using match_at_marker [OF assms, of "[]"] by simp

lemma render_part_marker:
  assumes "ds \<noteq> []" and "\<forall>c \<in> set ds. is_digit c"
    and "msg_citations message = Some cits"
  shows "render_part message (''['' @ ds @ '']'') =
           (if 1 \<le> parseInt ds \<and> parseInt ds \<le> length cits
            then Button (cits ! (parseInt ds - 1)) (''['' @ ds @ '']'')
            else Span (''['' @ ds @ '']''))"
proof -
  have "js_index cits (int (parseInt ds) - 1) =
          (if 1 \<le> parseInt ds \<and> parseInt ds \<le> length cits
           then Some (cits ! (parseInt ds - 1)) else None)"
    by (auto simp: js_index_def nat_diff_distrib')
  with string_match_marker [OF assms(1,2)] assms(3) show ?thesis
    by (simp add: render_part_def Let_def)
qed

text \<open>
  C3, where the code departs from it. With three sources, the answer \<open>See [3].\<close> has one
  citation, that of the third source; the marker \<open>[3]\<close> is looked up at position 3 of
  that one-element list and rendered as plain text. In the answer \<open>[2][1]\<close> both markers
  are buttons, each opening the citation of the other.
\<close>

theorem render_message_misses_resolved_marker:
  "citations (parseCitations ''See [3].'' three_sources) = [citation_of three_sources 3]
   \<and> render_message (assistantMessage ''See [3].'' three_sources) =
       [Span ''See '', Span ''[3]'', Span ''.'']
   \<and> render_message (assistantMessage ''[2][1]'' three_sources) =
       [Span '''', Button (citation_of three_sources 1) ''[2]'',
        Span '''', Button (citation_of three_sources 2) ''[1]'', Span '''']"
proof -
  have one: "citations (parseCitations ''See [3].'' three_sources) = [citation_of three_sources 3]"
    by (simp add: citations_parseCitations marker_numbers_def match_at_def is_digit_def
        strip_brackets_def parseInt_def digit_value_def three_sources_def)
  have two: "citations (parseCitations ''[2][1]'' three_sources) =
               [citation_of three_sources 2, citation_of three_sources 1]"
    by (simp add: citations_parseCitations marker_numbers_def match_at_def is_digit_def
        strip_brackets_def parseInt_def digit_value_def three_sources_def)
  have split_one: "js_split ''See [3].'' = [''See '', ''[3]'', ''.'']"
    by (simp add: js_split_def match_at_def is_digit_def)
  have split_two: "js_split ''[2][1]'' = ['''', ''[2]'', '''', ''[1]'', '''']"
    by (simp add: js_split_def match_at_def is_digit_def)
  have render_one: "render_message (assistantMessage ''See [3].'' three_sources) =
       [Span ''See '', Span ''[3]'', Span ''.'']"
    by (simp add: render_message_def assistantMessage_def text_parseCitations one
        split_one render_part_def match_at_def is_digit_def parseInt_def digit_value_def
        js_index_def Let_def)
  have render_two: "render_message (assistantMessage ''[2][1]'' three_sources) =
       [Span '''', Button (citation_of three_sources 1) ''[2]'',
        Span '''', Button (citation_of three_sources 2) ''[1]'', Span '''']"
    by (simp add: render_message_def assistantMessage_def text_parseCitations two
        split_two render_part_def match_at_def is_digit_def parseInt_def digit_value_def
        js_index_def Let_def)
  from one render_one render_two show ?thesis by simp
qed

section \<open>Properties of the popup\<close>

text \<open>
  C9. The popup state holds at most one popup, and none at the start. A click on a
  citation, whatever the state, leaves exactly the popup of that citation, placed at the
  left edge of the clicked control and 10 above its top edge. A click on the close
  button or on the scrim leaves none. The scrim is on screen exactly while a popup is.
\<close>

theorem popup_single_slot:
  "length (popups_shown (foldl handle st evs)) \<le> 1
   \<and> popups_shown (handle st (Citation_click c r)) =
       [\<lparr>popup_citation = c, popup_x = rect_left r, popup_y = rect_top r - 10\<rparr>]
   \<and> popups_shown (handle st Close_click) = []
   \<and> popups_shown (handle st Scrim_click) = []
   \<and> scrim_shown st = (popups_shown st \<noteq> [])
   \<and> popups_shown initial_popup_state = []"
  by (simp add: popups_shown_def scrim_shown_def handleCitationClick_def closeCitationPopup_def
      initial_popup_state_def split: option.split)

theorem popup_single_slot_witness:
  "popups_shown
     (foldl handle initial_popup_state
        [Citation_click carbs_citation \<lparr>rect_left = 100, rect_top = 50\<rparr>,
         Citation_click fats_citation \<lparr>rect_left = 30, rect_top = 75\<rparr>])
   = [\<lparr>popup_citation = fats_citation, popup_x = 30, popup_y = 65\<rparr>]"
  using popup_single_slot
    [of "handle initial_popup_state
           (Citation_click carbs_citation \<lparr>rect_left = 100, rect_top = 50\<rparr>)" "[]"
        fats_citation "\<lparr>rect_left = 30, rect_top = 75\<rparr>"]
  by simp

section \<open>Properties of context and sources\<close>

lemma length_map_from: "length (map_from i f xs) = length xs"
  by (induction xs arbitrary: i) auto

lemma nth_map_from: "k < length xs \<Longrightarrow> map_from i f xs ! k = f (xs ! k) (i + k)"
proof (induction xs arbitrary: i k)
  case Nil
  then show ?case by simp
next
  case (Cons x xs)
  show ?case
  proof (cases k)
    case 0
    then show ?thesis by simp
  next
    case (Suc j)
    with Cons.prems have "j < length xs" by simp
    from Cons.IH [OF this, of "Suc i"] Suc show ?thesis by simp
  qed
qed

lemma array_map_upt: "array_map f xs = map (\<lambda>i. f (xs ! i) i) [0..<length xs]"
  by (rule nth_equalityI) (simp_all add: array_map_def length_map_from nth_map_from)

lemma array_join_Cons: "array_join sep (x # xs) = x @ concat (map (\<lambda>y. sep @ y) xs)"
  by (induction xs arbitrary: x) auto

lemma typeof_number: "(typeof v = ''number'') = (\<exists>n. v = Num n)"
  by (cases v) (simp_all add: typeof_def)

text \<open>
  C1, as the code has it. The sources are one per chunk, in the order of the chunks; the
  source at position \<open>i\<close> has index \<open>i + 1\<close> and id \<open>source-i\<close>; its page is the page of
  the chunk when that is a number and \<open>null\<close> otherwise; its similarity is the
  similarity of the chunk when that is of type number, \<open>NaN\<close> and the infinities
  included, and 0 otherwise.
\<close>

theorem processedSources_positions:
  "length (processedSources chunks) = length chunks
   \<and> (\<forall>i < length chunks.
        processedSources chunks ! i =
          \<lparr>src_id = ''source-'' @ decimal i,
           src_page = (case chunk_page (chunks ! i) of Num p \<Rightarrow> Some p | _ \<Rightarrow> None),
           src_content = chunk_content (chunks ! i),
           src_similarity = (case chunk_similarity (chunks ! i) of Num x \<Rightarrow> x | _ \<Rightarrow> Finite 0),
           src_index = i + 1\<rparr>)"
  by (simp add: processedSources_def array_map_def length_map_from nth_map_from
      processedSource_def)

theorem processedSources_positions_witness:
  "processedSources three_chunks ! 1 =
     \<lparr>src_id = ''source-1'', src_page = None, src_content = ''fats'',
      src_similarity = Finite 0, src_index = 2\<rparr>
   \<and> processedSources three_chunks ! 2 =
     \<lparr>src_id = ''source-2'', src_page = None, src_content = ''proteins'',
      src_similarity = NaN, src_index = 3\<rparr>"
proof -
  have len: "length three_chunks = 3" by (simp add: three_chunks_def)
  have digits: "decimal (Suc 0) = ''1''" "decimal 2 = ''2''"
    by (simp_all add: decimal.simps digit_char_def)
  from processedSources_positions [of three_chunks] len
  have "processedSources three_chunks ! 1 =
          \<lparr>src_id = ''source-'' @ decimal 1,
           src_page = (case chunk_page (three_chunks ! 1) of Num p \<Rightarrow> Some p | _ \<Rightarrow> None),
           src_content = chunk_content (three_chunks ! 1),
           src_similarity =
             (case chunk_similarity (three_chunks ! 1) of Num x \<Rightarrow> x | _ \<Rightarrow> Finite 0),
           src_index = 1 + 1\<rparr>"
    and "processedSources three_chunks ! 2 =
          \<lparr>src_id = ''source-'' @ decimal 2,
           src_page = (case chunk_page (three_chunks ! 2) of Num p \<Rightarrow> Some p | _ \<Rightarrow> None),
           src_content = chunk_content (three_chunks ! 2),
           src_similarity =
             (case chunk_similarity (three_chunks ! 2) of Num x \<Rightarrow> x | _ \<Rightarrow> Finite 0),
           src_index = 2 + 1\<rparr>"
    by simp_all
  then show ?thesis
    by (simp add: digits three_chunks_def chunk_page_def optional_get_def)
qed

text \<open>The similarity \<open>Infinity\<close> is of type number and not finite: it is returned as it is,
  not as 0.\<close>

theorem processedSources_infinity_counterexample:
  "\<not> is_finite_number (chunk_similarity infinite_chunk)
   \<and> src_similarity (processedSources [infinite_chunk] ! 0) \<noteq> Finite 0"
  by (simp add: is_finite_number_def infinite_chunk_def processedSources_def array_map_def
      processedSource_def)

text \<open>
  C5. The context is the entries of the chunks joined by a blank line: the first entry,
  then each further entry after two line feeds. The entry at position \<open>i\<close> is
  \<open>[i+1] (Page P) content\<close>, where \<open>P\<close> is the page of the chunk printed as a number when
  it is one, and \<open>?\<close> otherwise.
\<close>

theorem context_block_entries:
  "context_block repr chunks =
     array_join blank_line
       (map (\<lambda>i. ''['' @ decimal (i + 1) @ ''] (Page ''
                 @ (case chunk_page (chunks ! i) of Num p \<Rightarrow> number_toString repr p | _ \<Rightarrow> ''?'')
                 @ '') '' @ chunk_content (chunks ! i))
          [0..<length chunks])
   \<and> array_join blank_line (x # xs) = x @ concat (map (\<lambda>y. [CHR 0x0A, CHR 0x0A] @ y) xs)"
  by (simp add: context_block_def array_map_upt context_entry_def array_join_Cons
      blank_line_def)

theorem context_block_entries_witness:
  "context_block (\<lambda>q. ''0.5'') three_chunks =
     ''[1] (Page 12) carbs'' @ blank_line @ ''[2] (Page ?) fats'' @ blank_line
       @ ''[3] (Page ?) proteins''"
  using context_block_entries [of "\<lambda>q. ''0.5''" three_chunks]
  by (simp add: three_chunks_def chunk_page_def optional_get_def number_toString_def
      decimal.simps digit_char_def upt_rec [of 0] upt_rec [of 1] upt_rec [of 2])

section \<open>Properties of the request handler\<close>

lemma trim_empty_iff: "(trim s = []) = (\<forall>c \<in> set s. is_white_space c)"
proof
  assume "trim s = []"
  then have "dropWhile is_white_space (rev (dropWhile is_white_space s)) = []"
    by (simp add: trim_def)
  then have all: "\<forall>c \<in> set (dropWhile is_white_space s). is_white_space c"
    by (simp add: dropWhile_eq_Nil_conv)
  show "\<forall>c \<in> set s. is_white_space c"
  proof (cases "dropWhile is_white_space s")
    case Nil
    then show ?thesis by (simp add: dropWhile_eq_Nil_conv)
  next
    case (Cons d ds)
    then have "\<not> is_white_space d" by (metis hd_dropWhile list.sel(1) list.distinct(1))
    moreover from all Cons have "is_white_space d" by simp
    ultimately show ?thesis by simp
  qed
next
  assume "\<forall>c \<in> set s. is_white_space c"
  then have "dropWhile is_white_space s = []" by (simp add: dropWhile_eq_Nil_conv)
  then show "trim s = []" by (simp only: trim_def rev.simps dropWhile.simps)
qed

lemma context_entry_not_empty: "context_entry repr c i \<noteq> []"
  by (simp add: context_entry_def Let_def)

lemma context_block_empty_iff: "(context_block repr chunks = []) = (chunks = [])"
proof (cases chunks)
  case Nil
  then show ?thesis by (simp add: context_block_def array_map_def)
next
  case (Cons c cs)
  then show ?thesis
    by (simp add: context_block_def array_map_def array_join_Cons context_entry_not_empty)
qed

lemma message_text_request_of: "message_text repr (request_of m) = Inr m"
  by (simp add: message_text_def request_of_def optional_get_def nullish_or_def toString_def)

lemma trim_hi: "trim '' hi '' = ''hi''"
  by (simp add: trim_def is_white_space_def)

text \<open>
  C6. When the text of the message is empty or all white space, the response has status
  400 and an error body, and nothing else happened: no embedding, retrieval or
  generation call.
\<close>

theorem blank_message_rejected:
  assumes "message_text (number_repr e) parsed = Inr s"
    and "\<forall>c \<in> set s. is_white_space c"
  shows "status (fst (POST e (Inr parsed))) = 400
         \<and> body (fst (POST e (Inr parsed))) = Error_body ''Empty query''
         \<and> snd (POST e (Inr parsed)) = []"
proof -
  from assms(2) have "trim s = []" by (simp add: trim_empty_iff)
  with assms(1) have "POST e (Inr parsed) = (json_response 400 (Error_body ''Empty query''), [])"
    by (simp add: POST_def try_block_def)
  then show ?thesis by (simp add: json_response_def)
qed

theorem blank_message_rejected_witness:
  "status (fst (POST empty_store_env (Inr (request_of [CHR 0x20, CHR 0x09, CHR 0x0A])))) = 400
   \<and> snd (POST empty_store_env (Inr (request_of [CHR 0x20, CHR 0x09, CHR 0x0A]))) = []"
proof -
  have blank: "\<forall>c \<in> set [CHR 0x20, CHR 0x09, CHR 0x0A]. is_white_space c"
    by (simp add: is_white_space_def)
  from blank_message_rejected [OF message_text_request_of blank, of empty_store_env]
  show ?thesis by simp
qed

text \<open>
  C4. When the message is not blank, the embedding succeeds and the retrieval returns no
  error and an empty list of chunks (or \<open>null\<close>), the response has status 200, the fixed
  fallback answer and no sources; the effects are the embedding call and the retrieval
  call, so the generation was not called.
\<close>

theorem empty_retrieval_short_circuits:
  assumes "message_text (number_repr e) parsed = Inr s"
    and "trim s \<noteq> []"
    and "embedQuery e (trim s) = Inr queryEmb"
    and "rpc e ''match_documents'' (retrieval_args queryEmb) = Inr r"
    and "rpc_error r = None"
    and "rpc_data r = Some [] \<or> rpc_data r = None"
  shows "status (fst (POST e (Inr parsed))) = 200
         \<and> body (fst (POST e (Inr parsed))) = Answer_body fallback_answer []
         \<and> snd (POST e (Inr parsed)) =
             [Embedding_call embedding_model (trim s),
              Retrieval_call ''match_documents'' (retrieval_args queryEmb)]"
proof -
  from assms(6)
  have "context_block (number_repr e) (case rpc_data r of Some cs \<Rightarrow> cs | None \<Rightarrow> []) = []"
    by (auto simp: context_block_empty_iff)
  with assms(1-5) have "POST e (Inr parsed) =
      (json_response 200 (Answer_body fallback_answer []),
       [Embedding_call embedding_model (trim s),
        Retrieval_call ''match_documents'' (retrieval_args queryEmb)])"
    by (simp add: POST_def try_block_def Let_def)
  then show ?thesis by (simp add: json_response_def)
qed

theorem empty_retrieval_short_circuits_witness:
  "status (fst (POST empty_store_env (Inr (request_of '' hi '')))) = 200
   \<and> body (fst (POST empty_store_env (Inr (request_of '' hi '')))) = Answer_body fallback_answer []
   \<and> snd (POST empty_store_env (Inr (request_of '' hi ''))) =
       [Embedding_call embedding_model ''hi'',
        Retrieval_call ''match_documents'' (retrieval_args [Finite 1, Finite 0])]"
proof -
  have m: "message_text (number_repr empty_store_env) (request_of '' hi '') = Inr '' hi ''"
    by (rule message_text_request_of)
  have t: "trim '' hi '' \<noteq> []" by (simp add: trim_hi)
  have q: "embedQuery empty_store_env (trim '' hi '') = Inr [Finite 1, Finite 0]"
    by (simp add: embedQuery_def empty_store_env_def)
  have r: "rpc empty_store_env ''match_documents'' (retrieval_args [Finite 1, Finite 0])
             = Inr \<lparr>rpc_data = Some [], rpc_error = None\<rparr>"
    by (simp add: empty_store_env_def)
  have "rpc_error \<lparr>rpc_data = Some [], rpc_error = None\<rparr> = None"
    and "rpc_data \<lparr>rpc_data = Some ([] :: RetrievedChunk list), rpc_error = None\<rparr> = Some []
         \<or> rpc_data \<lparr>rpc_data = Some ([] :: RetrievedChunk list), rpc_error = None\<rparr> = None"
    by simp_all
  from empty_retrieval_short_circuits [OF m t q r this]
  show ?thesis by (simp add: trim_hi)
qed

text \<open>
  C7, as the code has it. When a stage fails on the trimmed message, the response has
  status 500 and an error body, with no answer and no sources, and the request stops
  there: the effects are the service calls up to the failing one, then the line logged
  to the console. When the failure is an \<open>Error\<close>, the error message is its message, and
  \<open>Unknown error\<close> when that message is empty. What the response says of a failure that
  is not an \<open>Error\<close> is not part of the statement.
\<close>

theorem stage_failure_gives_500:
  assumes "message_text (number_repr e) parsed = Inr s"
    and "trim s \<noteq> []"
    and "stage_fails e (trim s) err calls"
  shows "status (fst (POST e (Inr parsed))) = 500
         \<and> (\<exists>msg. body (fst (POST e (Inr parsed))) = Error_body msg)
         \<and> (\<forall>m. err = Error_instance m \<longrightarrow>
               body (fst (POST e (Inr parsed))) =
                 Error_body (if m = [] then ''Unknown error'' else m))
         \<and> (\<exists>logged. snd (POST e (Inr parsed)) =
               calls @ [Console_error ''api/chat error:'' logged])"
proof -
  have thrown: "try_block e (Inr parsed) = (Inl err, calls)"
    using assms(3)
  proof cases
    case embedding_fails
    with assms(1,2) show ?thesis
      by (simp add: try_block_def Let_def)
  next
    case (retrieval_throws queryEmb)
    with assms(1,2) show ?thesis
      by (simp add: try_block_def Let_def)
  next
    case (retrieval_fails queryEmb r pgerr)
    with assms(1,2) show ?thesis
      by (simp add: try_block_def Let_def)
  next
    case (generation_fails queryEmb r chunks)
    with assms(1,2) show ?thesis
      by (simp add: try_block_def Let_def context_block_empty_iff)
  qed
  then have post: "POST e (Inr parsed) =
      (json_response 500
         (Error_body (if caught_message err = [] then ''Unknown error'' else caught_message err)),
       calls @ [Console_error ''api/chat error:'' (caught_message err)])"
    by (simp add: POST_def catch_block_def Let_def)
  show ?thesis
    by (simp add: post json_response_def caught_message_def)
qed

theorem stage_failure_gives_500_witness:
  "stage_fails rate_limited_env ''hi'' (Error_instance ''429 rate limit'')
     [Embedding_call embedding_model ''hi'',
      Retrieval_call ''match_documents'' (retrieval_args [Finite 1, Finite 0]),
      Generation_call
        (generation_request ''hi'' (context_block (number_repr rate_limited_env) three_chunks))]
   \<and> status (fst (POST rate_limited_env (Inr (request_of '' hi '')))) = 500
   \<and> body (fst (POST rate_limited_env (Inr (request_of '' hi '')))) = Error_body ''429 rate limit''
   \<and> length (snd (POST rate_limited_env (Inr (request_of '' hi '')))) = 4"
proof -
  have m: "message_text (number_repr rate_limited_env) (request_of '' hi '') = Inr '' hi ''"
    by (rule message_text_request_of)
  have t: "trim '' hi '' \<noteq> []" by (simp add: trim_hi)
  have f: "stage_fails rate_limited_env (trim '' hi '') (Error_instance ''429 rate limit'')
     [Embedding_call embedding_model (trim '' hi ''),
      Retrieval_call ''match_documents'' (retrieval_args [Finite 1, Finite 0]),
      Generation_call
        (generation_request (trim '' hi '')
           (context_block (number_repr rate_limited_env) three_chunks))]"
    by (rule generation_fails
          [where queryEmb = "[Finite 1, Finite 0]" and chunks = three_chunks
             and r = "\<lparr>rpc_data = Some three_chunks, rpc_error = None\<rparr>"])
      (simp_all add: embedQuery_def rate_limited_env_def three_chunks_def)
  from stage_failure_gives_500 [OF m t f] f
  show ?thesis by (auto simp: trim_hi)
qed

text \<open>An embedding call that throws an \<open>Error\<close> with an empty message: the response
  says \<open>Unknown error\<close>, which is not the description of the failure.\<close>

theorem stage_failure_empty_description_counterexample:
  "stage_fails silent_failure_env ''hi'' (Error_instance '''')
     [Embedding_call embedding_model ''hi'']
   \<and> body (fst (POST silent_failure_env (Inr (request_of '' hi ''))))
       \<noteq> Error_body (failure_description (Error_instance ''''))"
proof -
  have f: "stage_fails silent_failure_env ''hi'' (Error_instance '''')
             [Embedding_call embedding_model ''hi'']"
    by (rule embedding_fails) (simp add: embedQuery_def silent_failure_env_def)
  have "POST silent_failure_env (Inr (request_of '' hi '')) =
          (json_response 500 (Error_body ''Unknown error''),
           [Embedding_call embedding_model ''hi'', Console_error ''api/chat error:'' ''''])"
    by (simp add: POST_def try_block_def message_text_request_of trim_hi embedQuery_def
        silent_failure_env_def catch_block_def caught_message_def Let_def)
  with f show ?thesis by (simp add: json_response_def failure_description_def)
qed

text \<open>
  The failure the statement leaves out. The store reports an error; line 68 throws the
  error object, which is not an \<open>Error\<close>, and the \<open>catch\<close> turns it into a string: the
  response says \<open>[object Object]\<close> where the description of the failure is the message
  of the error object.
\<close>

lemma store_error_reported_as_object:
  "stage_fails store_error_env ''hi'' (Postgrest_object missing_function)
     [Embedding_call embedding_model ''hi'',
      Retrieval_call ''match_documents'' (retrieval_args [Finite 1, Finite 0])]
   \<and> fst (POST store_error_env (Inr (request_of '' hi ''))) =
       json_response 500 (Error_body ''[object Object]'')
   \<and> failure_description (Postgrest_object missing_function) =
       ''function match_documents does not exist''"
proof -
  have f: "stage_fails store_error_env ''hi'' (Postgrest_object missing_function)
     [Embedding_call embedding_model ''hi'',
      Retrieval_call ''match_documents'' (retrieval_args [Finite 1, Finite 0])]"
    by (rule retrieval_fails
          [where queryEmb = "[Finite 1, Finite 0]"
             and r = "\<lparr>rpc_data = None, rpc_error = Some missing_function\<rparr>"])
      (simp_all add: embedQuery_def store_error_env_def)
  have "fst (POST store_error_env (Inr (request_of '' hi ''))) =
          json_response 500 (Error_body ''[object Object]'')"
    by (simp add: POST_def try_block_def message_text_request_of trim_hi embedQuery_def
        store_error_env_def catch_block_def caught_message_def Let_def)
  with f show ?thesis by (simp add: failure_description_def missing_function_def)
qed

end
